theory Spec2Isabelle
  imports Complex_Main
begin

section \<open>The quiz generator (quiz-generator-RAG.py)\<close>

subsection \<open>Data model\<close>

text \<open>
  The pydantic models of the source. \<open>difficulty\<close> is a Python float that is only
  ever compared with the bounds \<open>ge=0.0\<close> and \<open>le=1.0\<close>; it is a rational here.
\<close>

record QuizItem =
  question :: string
  difficulty :: rat
  answer :: string

record Quiz =
  quiz_items :: "QuizItem list"

record QuizOrInsufficientInfo =
  quiz :: "Quiz option"
  additional_info :: "string option"

record GraphOutput =
  out_quiz :: Quiz

datatype exception =
    Exception string
  | ValueError string
  | ValidationError
  | OutputParserException
  | IndexError
  | KeyError string
  | RetrieverError string

text \<open>The field constraints of \<open>QuizItem\<close> (\<open>ge=0.0, le=1.0\<close>), checked for every item
  when a \<open>Quiz\<close> is built from parsed data.\<close>

definition QuizItem_ok :: "QuizItem \<Rightarrow> bool" where
  "QuizItem_ok i = (0 \<le> difficulty i \<and> difficulty i \<le> 1)"

definition Quiz_ok :: "Quiz \<Rightarrow> bool" where
  "Quiz_ok q = list_all QuizItem_ok (quiz_items q)"

subsection \<open>The validator \<open>check_quiz\<close>\<close>

text \<open>
  \<open>values\<close> is the dictionary pydantic hands to a field validator. \<open>values.get(k)\<close>
  is \<open>None\<close> for a key that is not there.
\<close>

datatype field_value = VNone | VStr string | VQuiz Quiz

definition dict_get :: "(string \<rightharpoonup> field_value) \<Rightarrow> string \<Rightarrow> field_value" where
  "dict_get values k = (case values k of None \<Rightarrow> VNone | Some v \<Rightarrow> v)"

definition check_quiz_message :: string where
  "check_quiz_message =
     ''Quiz should be None when additional_info is not '' @ [CHR 0x27] @ ''false'' @ [CHR 0x27]"

definition check_quiz ::
  "Quiz option \<Rightarrow> (string \<rightharpoonup> field_value) \<Rightarrow> exception + Quiz option" where
  "check_quiz v values =
     (if dict_get values ''additional_info'' = VStr ''false'' \<and> v = None
      then Inl (ValueError check_quiz_message)
      else Inr v)"

text \<open>
  Construction of a \<open>QuizOrInsufficientInfo\<close> from the two raw fields. pydantic
  validates the fields in the order the class declares them (\<open>quiz\<close>, then
  \<open>additional_info\<close>) and passes to a field's validator, as \<open>values\<close>, the fields
  validated before it. \<open>check_quiz\<close> is attached to \<open>quiz\<close>, the first field, so the
  dictionary it receives is empty. Every validation failure surfaces as one
  \<open>ValidationError\<close>.
\<close>

definition QuizOrInsufficientInfo_init ::
  "Quiz option \<Rightarrow> string option \<Rightarrow> exception + QuizOrInsufficientInfo" where
  "QuizOrInsufficientInfo_init raw_quiz raw_info =
     (if (case raw_quiz of None \<Rightarrow> True | Some q \<Rightarrow> Quiz_ok q)
      then (case check_quiz raw_quiz Map.empty of
              Inl e \<Rightarrow> Inl ValidationError
            | Inr v \<Rightarrow> Inr \<lparr>quiz = v, additional_info = raw_info\<rparr>)
      else Inl ValidationError)"

text \<open>
  The text the model call returns is either not a JSON object of the schema at all, or
  an object giving the two fields. \<open>output_parser.parse\<close> raises on the first and
  builds the model from the second.
\<close>

datatype llm_content = Malformed | Json_fields "Quiz option" "string option"

definition output_parser_parse :: "llm_content \<Rightarrow> exception + QuizOrInsufficientInfo" where
  "output_parser_parse c =
     (case c of
        Malformed \<Rightarrow> Inl OutputParserException
      | Json_fields q a \<Rightarrow>
          (case QuizOrInsufficientInfo_init q a of
             Inl e \<Rightarrow> Inl OutputParserException
           | Inr r \<Rightarrow> Inr r))"

subsection \<open>Workflow state\<close>

datatype message = HumanMessage string | AIMessage string | SystemMessage string

fun content :: "message \<Rightarrow> string" where
  "content (HumanMessage t) = t"
| "content (AIMessage t) = t"
| "content (SystemMessage t) = t"

record GraphInput =
  general_category :: string
  quiz_topic :: string
  bucket_name :: string
  index_name :: string
  bucket_folder :: "string option"

text \<open>
  \<open>GraphState\<close>: the keys of the source's state dictionary, prefixed \<open>st_\<close>. The
  message list starts empty. The key \<open>quiz\<close> is absent until \<open>create_quiz\<close> writes
  it (with a quiz or with \<open>None\<close>); reading an absent key with \<open>state["quiz"]\<close>
  raises \<open>KeyError\<close>.
\<close>

datatype 'a entry = Absent | Present 'a

record GraphState =
  st_messages :: "message list"
  st_general_category :: string
  st_quiz_topic :: string
  st_bucket_name :: string
  st_bucket_folder :: "string option"
  st_index_name :: string
  st_additional_info :: "string option"
  st_quiz :: "Quiz option entry"

text \<open>\<open>prepare_input\<close> gives the keys it names; \<open>messages\<close>, \<open>bucket_folder\<close> and \<open>quiz\<close>
  are not among them.\<close>

definition prepare_input :: "GraphInput \<Rightarrow> GraphState" where
  "prepare_input state =
     \<lparr>st_messages = [],
      st_general_category = general_category state,
      st_quiz_topic = quiz_topic state,
      st_bucket_name = bucket_name state,
      st_bucket_folder = None,
      st_index_name = index_name state,
      st_additional_info = Some ''false'',
      st_quiz = Absent\<rparr>"

subsection \<open>\<open>invoke_researcher\<close>\<close>

text \<open>What an f-string prints for an optional string.\<close>

definition format_str :: "string option \<Rightarrow> string" where
  "format_str v = (case v of None \<Rightarrow> ''None'' | Some s \<Rightarrow> s)"

record InvokeProcess =
  name :: string
  arg_messages :: "message list"
  arg_bucket_name :: string
  arg_bucket_folder :: "string option"

type_synonym document = string

datatype event =
    Interrupt InvokeProcess
  | Get_or_create_index string string
  | Ingest_data
  | Retriever_invoke string
  | Sleep nat
  | Llm_invoke string "document list"

text \<open>
  The node up to its \<open>interrupt\<close>: it appends one human message to the conversation
  and suspends the workflow with the request for the researcher process.
\<close>

definition invoke_researcher_request :: "GraphState \<Rightarrow> GraphState \<times> InvokeProcess" where
  "invoke_researcher_request state =
     (let m = (if st_additional_info state \<noteq> Some ''false''
               then HumanMessage (format_str (st_additional_info state))
               else HumanMessage (''Fetch data about '' @ st_general_category state));
          state1 = state\<lparr>st_messages := st_messages state @ [m]\<rparr>
      in (state1,
          \<lparr>name = ''researcher-and-uploader-agent'',
           arg_messages = st_messages state1,
           arg_bucket_name = st_bucket_name state1,
           arg_bucket_folder = st_bucket_folder state1\<rparr>))"

text \<open>
  The node after the researcher has answered with the messages \<open>agent_response\<close>:
  the last of them and a user message are added to the conversation
  (\<open>MessagesState\<close> appends an update of \<open>messages\<close>). \<open>[-1]\<close> of an empty list raises.
\<close>

definition invoke_researcher_resume ::
  "GraphState \<Rightarrow> message list \<Rightarrow> exception + GraphState" where
  "invoke_researcher_resume state1 agent_response =
     (if agent_response = [] then Inl IndexError
      else Inr (state1\<lparr>st_messages := st_messages state1 @
                  [last agent_response,
                   HumanMessage (''create a quiz about '' @ st_quiz_topic state1)]\<rparr>))"

subsection \<open>\<open>create_quiz\<close>: the retrieval loop\<close>

text \<open>
  One call of the retriever returns documents, raises
  \<open>IngestionInProgressException\<close> (with its message), or raises anything else. The
  retriever is a function of the attempt number.
\<close>

datatype retrieval =
    Documents "document list"
  | IngestionInProgressException string
  | Raises exception

text \<open>
  The \<open>while no_of_retries != 0\<close> loop. It returns the exception that left it, or
  \<open>context_data\<close>, together with \<open>no_of_retries\<close> as the loop left it and the calls it
  made. \<open>k\<close> counts the attempts made so far.
\<close>

fun retrieve_loop ::
  "(nat \<Rightarrow> retrieval) \<Rightarrow> string \<Rightarrow> nat \<Rightarrow> nat \<Rightarrow>
   (exception + document list option) \<times> nat \<times> event list" where
  "retrieve_loop retriever topic 0 k = (Inr None, 0, [])"
| "retrieve_loop retriever topic (Suc n) k =
     (case retriever k of
        Documents ds \<Rightarrow> (Inr (Some ds), Suc n, [Retriever_invoke topic])
      | IngestionInProgressException msg \<Rightarrow>
          (case retrieve_loop retriever topic n (Suc k) of
             (r, left, ev) \<Rightarrow> (r, left, Retriever_invoke topic # Sleep 5 # ev))
      | Raises e \<Rightarrow> (Inl e, Suc n, [Retriever_invoke topic]))"

text \<open>The loop from \<open>no_of_retries = 5\<close>, then \<open>if not context_data: raise\<close>. An empty
  list is false in Python, as \<open>None\<close> is.\<close>

definition retrieve_context ::
  "(nat \<Rightarrow> retrieval) \<Rightarrow> string \<Rightarrow> (exception + document list) \<times> event list" where
  "retrieve_context retriever topic =
     (case retrieve_loop retriever topic 5 0 of
        (Inl e, left, ev) \<Rightarrow> (Inl e, ev)
      | (Inr context_data, left, ev) \<Rightarrow>
          (case context_data of
             None \<Rightarrow> (Inl (Exception ''Ingestion is taking too long!''), ev)
           | Some ds \<Rightarrow>
               (if ds = [] then (Inl (Exception ''Ingestion is taking too long!''), ev)
                else (Inr ds, ev))))"

subsection \<open>\<open>create_quiz\<close>: generation\<close>

datatype node_result = Update GraphState | Goto_END | Raise exception

text \<open>The \<open>Command(update=...)\<close> of a parsed response, merged into the state.\<close>

definition create_quiz_update :: "GraphState \<Rightarrow> QuizOrInsufficientInfo \<Rightarrow> GraphState" where
  "create_quiz_update state llm_response =
     state\<lparr>st_quiz := Present (if additional_info llm_response = Some ''false''
                                then quiz llm_response else None),
           st_additional_info := additional_info llm_response\<rparr>"

text \<open>
  The node: the index is fetched and its ingestion started, the context is retrieved,
  the model is called with the prompt built from the topic and the context, and its
  text \<open>result\<close> is parsed. Any exception of the parse ends in
  \<open>Command(goto=END)\<close>. The \<open>print\<close> and \<open>logger\<close> calls change nothing and are left
  out; the calls to the index and to the model are taken to return.
\<close>

definition create_quiz ::
  "GraphState \<Rightarrow> (nat \<Rightarrow> retrieval) \<Rightarrow> llm_content \<Rightarrow> node_result \<times> event list" where
  "create_quiz state retriever result =
     (let ev0 = [Get_or_create_index (st_index_name state) (st_bucket_name state),
                 Ingest_data]
      in case retrieve_context retriever (st_quiz_topic state) of
           (Inl e, ev) \<Rightarrow> (Raise e, ev0 @ ev)
         | (Inr context_data, ev) \<Rightarrow>
             (let ev1 = ev0 @ ev @ [Llm_invoke (st_quiz_topic state) context_data]
              in case output_parser_parse result of
                   Inl e \<Rightarrow> (Goto_END, ev1)
                 | Inr llm_response \<Rightarrow>
                     (Update (create_quiz_update state llm_response), ev1)))"

subsection \<open>Routing and the graph\<close>

datatype node = Invoke_researcher | Return_quiz

definition check_quiz_creation :: "GraphState \<Rightarrow> node" where
  "check_quiz_creation state =
     (if st_additional_info state \<noteq> Some ''false'' then Invoke_researcher
      else Return_quiz)"

text \<open>\<open>state["quiz"]\<close> raises when the key is absent. \<open>GraphOutput\<close> declares
  \<open>quiz: Quiz\<close>, so building it from \<open>None\<close> fails.\<close>

definition return_quiz :: "GraphState \<Rightarrow> exception + GraphOutput" where
  "return_quiz state =
     (case st_quiz state of
        Absent \<Rightarrow> Inl (KeyError ''quiz'')
      | Present None \<Rightarrow> Inl ValidationError
      | Present (Some q) \<Rightarrow> Inr \<lparr>out_quiz = q\<rparr>)"

text \<open>
  The state the graph has when \<open>create_quiz\<close> has returned. An update is merged into
  it. \<open>Command(goto=END)\<close> carries no update and names no node to run, so the state
  is as it was. Either way the conditional edge that line 179 attaches to
  \<open>create_quiz\<close> then routes on that state.
\<close>

definition after_create_quiz :: "GraphState \<Rightarrow> node_result \<Rightarrow> exception + GraphState" where
  "after_create_quiz state res =
     (case res of
        Update state' \<Rightarrow> Inr state'
      | Goto_END \<Rightarrow> Inr state
      | Raise e \<Rightarrow> Inl e)"

text \<open>
  What the world answers in one research-and-generate cycle: the researcher's
  messages, the retriever, and the text of the model call.
\<close>

record cycle =
  agent_response :: "message list"
  retriever :: "nat \<Rightarrow> retrieval"
  llm_result :: llm_content

datatype outcome =
    Output GraphOutput
  | Raised exception
  | Suspended InvokeProcess

text \<open>
  The edges \<open>invoke_researcher \<rightarrow> create_quiz \<rightarrow> check_quiz_creation\<close>, run from
  \<open>invoke_researcher\<close> against the answers of the cycles. The node suspends the run at
  its \<open>interrupt\<close>; with no answer left the run stays suspended there. When the
  researcher has answered, the node runs again from its first line, on the state whose
  message list it has already appended to, so the human message is appended a second
  time before the answer is taken. The events are the external calls made, in order;
  the request that reached the researcher is the one of the first pass.
\<close>

fun run_graph :: "GraphState \<Rightarrow> cycle list \<Rightarrow> outcome \<times> event list" where
  "run_graph state [] =
     (case invoke_researcher_request state of
        (state1, req) \<Rightarrow> (Suspended req, [Interrupt req]))"
| "run_graph state (c # cs) =
     (case invoke_researcher_request state of
        (state1, req) \<Rightarrow>
          (case invoke_researcher_resume (fst (invoke_researcher_request state1))
                  (agent_response c) of
             Inl e \<Rightarrow> (Raised e, [Interrupt req])
           | Inr state2 \<Rightarrow>
               (case create_quiz state2 (retriever c) (llm_result c) of
                  (res, ev) \<Rightarrow>
                    (case after_create_quiz state2 res of
                       Inl e \<Rightarrow> (Raised e, Interrupt req # ev)
                     | Inr state3 \<Rightarrow>
                         (case check_quiz_creation state3 of
                            Return_quiz \<Rightarrow>
                              (case return_quiz state3 of
                                 Inl e \<Rightarrow> (Raised e, Interrupt req # ev)
                               | Inr out \<Rightarrow> (Output out, Interrupt req # ev))
                          | Invoke_researcher \<Rightarrow>
                              (case run_graph state3 cs of
                                 (r, ev') \<Rightarrow> (r, Interrupt req # ev @ ev')))))))"

text \<open>
  The graph from its input. The state holds the keys of the input, and the keys
  \<open>prepare_input\<close> returns are merged into it: \<open>bucket_folder\<close>, which \<open>prepare_input\<close>
  does not return, keeps the value of the input.
\<close>

definition graph :: "GraphInput \<Rightarrow> cycle list \<Rightarrow> outcome \<times> event list" where
  "graph input cs =
     run_graph ((prepare_input input)\<lparr>st_bucket_folder := bucket_folder input\<rparr>) cs"

fun is_interrupt :: "event \<Rightarrow> bool" where
  "is_interrupt (Interrupt p) = True"
| "is_interrupt e = False"

fun is_llm_invoke :: "event \<Rightarrow> bool" where
  "is_llm_invoke (Llm_invoke t ds) = True"
| "is_llm_invoke e = False"

fun is_retriever_invoke :: "event \<Rightarrow> bool" where
  "is_retriever_invoke (Retriever_invoke t) = True"
| "is_retriever_invoke e = False"

fun is_sleep :: "event \<Rightarrow> bool" where
  "is_sleep (Sleep d) = True"
| "is_sleep e = False"

text \<open>
  A cycle that sends the workflow back to research when the quiz topic is \<open>topic\<close>:
  the researcher answers, the retrieval gives documents, and the text of the model
  call parses to a result whose \<open>additional_info\<close> is not \<open>"false"\<close>. \<open>gap_of\<close> is
  the \<open>additional_info\<close> of the parsed result.
\<close>

definition insufficient_cycle :: "string \<Rightarrow> cycle \<Rightarrow> bool" where
  "insufficient_cycle topic c =
     (agent_response c \<noteq> [] \<and>
      (case fst (retrieve_context (retriever c) topic) of
         Inl e \<Rightarrow> False
       | Inr ds \<Rightarrow> True) \<and>
      (case output_parser_parse (llm_result c) of
         Inl e \<Rightarrow> False
       | Inr r \<Rightarrow> additional_info r \<noteq> Some ''false''))"

definition gap_of :: "cycle \<Rightarrow> string option" where
  "gap_of c =
     (case output_parser_parse (llm_result c) of
        Inl e \<Rightarrow> None
      | Inr r \<Rightarrow> additional_info r)"

section \<open>The researcher (researcher-and-uploader.py)\<close>

text \<open>
  The researcher's \<open>GraphInput\<close> and \<open>GraphState\<close> are \<open>ResearcherInput\<close> and
  \<open>ResearcherState\<close> here, its \<open>prepare_input\<close> is \<open>researcher_prepare_input\<close>.
\<close>

record ResearcherInput =
  in_messages :: "message list"
  in_bucket_name :: string
  in_bucket_folder :: "string option"

record ResearcherState =
  r_messages :: "message list"
  web_results :: string
  r_bucket_name :: string
  r_bucket_folder :: "string option"

definition researcher_prepare_input :: "ResearcherInput \<Rightarrow> ResearcherState" where
  "researcher_prepare_input state =
     \<lparr>r_messages = in_messages state,
      web_results = [],
      r_bucket_name = in_bucket_name state,
      r_bucket_folder = in_bucket_folder state\<rparr>"

text \<open>\<open>research_agent.invoke\<close> answers with the messages \<open>result\<close>; the text of the last
  one becomes \<open>web_results\<close>.\<close>

definition research_node :: "ResearcherState \<Rightarrow> message list \<Rightarrow> exception + ResearcherState" where
  "research_node state result =
     (if result = [] then Inl IndexError
      else Inr (state\<lparr>web_results := content (last result)\<rparr>))"

text \<open>Python's \<open>str\<close> of an integer, as the f-string \<open>f"{current_timestamp}.txt"\<close> prints it.\<close>

definition digit_char :: "nat \<Rightarrow> char" where
  "digit_char d = ''0123456789'' ! (d mod 10)"

fun str_nat :: "nat \<Rightarrow> string" where
  "str_nat n = (if n < 10 then [digit_char n] else str_nat (n div 10) @ [digit_char (n mod 10)])"

declare str_nat.simps [simp del]

definition str_int :: "int \<Rightarrow> string" where
  "str_int i = (if i < 0 then CHR ''-'' # str_nat (nat (- i)) else str_nat (nat i))"

record upload_from_memory =
  up_bucket_name :: string
  blob_file_path :: string
  content_type :: string
  up_content :: string

text \<open>\<open>upload_to_bucket\<close> at the time \<open>current_timestamp = int(time.time())\<close>: the storage
  call it makes and the \<open>MessagesState\<close> it returns.\<close>

definition upload_to_bucket ::
  "ResearcherState \<Rightarrow> int \<Rightarrow> upload_from_memory \<times> message list" where
  "upload_to_bucket state current_timestamp =
     (\<lparr>up_bucket_name = r_bucket_name state,
       blob_file_path = str_int current_timestamp @ ''.txt'',
       content_type = ''application/txt'',
       up_content = web_results state\<rparr>,
      [AIMessage ''Relevant information uploaded to bucket.''])"

text \<open>
  The edges \<open>prepare_input \<rightarrow> researcher \<rightarrow> upload_to_bucket \<rightarrow> END\<close>. The output of
  the graph is the \<open>messages\<close> of its state: \<open>MessagesState\<close> appends the messages a
  node returns, so this is the conversation the graph was given followed by what
  \<open>upload_to_bucket\<close> returns.
\<close>

definition researcher_graph ::
  "ResearcherInput \<Rightarrow> message list \<Rightarrow> int \<Rightarrow> exception + upload_from_memory \<times> message list" where
  "researcher_graph input result current_timestamp =
     (case research_node (researcher_prepare_input input) result of
        Inl e \<Rightarrow> Inl e
      | Inr state \<Rightarrow>
          (case upload_to_bucket state current_timestamp of
             (upload, returned) \<Rightarrow> Inr (upload, r_messages state @ returned)))"

text \<open>The acknowledgments in a conversation.\<close>

definition acknowledgments :: "message list \<Rightarrow> nat" where
  "acknowledgments ms =
     length (filter (\<lambda>m. m = AIMessage ''Relevant information uploaded to bucket.'') ms)"

section \<open>Properties of the quiz generator\<close>

subsection \<open>The retrieval loop\<close>

text \<open>
  Three ways through the loop, from any counter \<open>n\<close> and attempt number \<open>k\<close>: the
  retriever signals ingestion \<open>m\<close> times and then returns documents, or then raises
  something else, or it signals on all \<open>n\<close> attempts.
\<close>

lemma retrieve_loop_documents:
  "(\<forall>j<m. \<exists>msg. retr (k + j) = IngestionInProgressException msg) \<Longrightarrow>
   retr (k + m) = Documents ds \<Longrightarrow> m < n \<Longrightarrow>
   retrieve_loop retr topic n k =
     (Inr (Some ds), n - m,
      concat (replicate m [Retriever_invoke topic, Sleep 5]) @ [Retriever_invoke topic])"
proof (induction m arbitrary: n k)
  case 0
  then obtain n' where "n = Suc n'" by (cases n) auto
  with 0 show ?case by simp
next
  case (Suc m)
  then obtain n' where n: "n = Suc n'" by (cases n) auto
  from Suc.prems(1) have "\<exists>msg. retr (k + 0) = IngestionInProgressException msg"
    by blast
  then obtain msg where msg: "retr k = IngestionInProgressException msg" by auto
  have "\<forall>j<m. \<exists>msg. retr (Suc k + j) = IngestionInProgressException msg"
  proof (intro allI impI)
    fix j assume "j < m"
    then have "Suc j < Suc m" by simp
    with Suc.prems(1) have "\<exists>msg. retr (k + Suc j) = IngestionInProgressException msg"
      by blast
    then show "\<exists>msg. retr (Suc k + j) = IngestionInProgressException msg" by simp
  qed
  moreover have "retr (Suc k + m) = Documents ds" using Suc.prems(2) by simp
  moreover have "m < n'" using Suc.prems(3) n by simp
  ultimately have "retrieve_loop retr topic n' (Suc k) =
     (Inr (Some ds), n' - m,
      concat (replicate m [Retriever_invoke topic, Sleep 5]) @ [Retriever_invoke topic])"
    by (rule Suc.IH)
  with n msg show ?case by simp
qed

lemma retrieve_loop_raises:
  "(\<forall>j<m. \<exists>msg. retr (k + j) = IngestionInProgressException msg) \<Longrightarrow>
   retr (k + m) = Raises e \<Longrightarrow> m < n \<Longrightarrow>
   retrieve_loop retr topic n k =
     (Inl e, n - m,
      concat (replicate m [Retriever_invoke topic, Sleep 5]) @ [Retriever_invoke topic])"
proof (induction m arbitrary: n k)
  case 0
  then obtain n' where "n = Suc n'" by (cases n) auto
  with 0 show ?case by simp
next
  case (Suc m)
  then obtain n' where n: "n = Suc n'" by (cases n) auto
  from Suc.prems(1) have "\<exists>msg. retr (k + 0) = IngestionInProgressException msg"
    by blast
  then obtain msg where msg: "retr k = IngestionInProgressException msg" by auto
  have "\<forall>j<m. \<exists>msg. retr (Suc k + j) = IngestionInProgressException msg"
  proof (intro allI impI)
    fix j assume "j < m"
    then have "Suc j < Suc m" by simp
    with Suc.prems(1) have "\<exists>msg. retr (k + Suc j) = IngestionInProgressException msg"
      by blast
    then show "\<exists>msg. retr (Suc k + j) = IngestionInProgressException msg" by simp
  qed
  moreover have "retr (Suc k + m) = Raises e" using Suc.prems(2) by simp
  moreover have "m < n'" using Suc.prems(3) n by simp
  ultimately have "retrieve_loop retr topic n' (Suc k) =
     (Inl e, n' - m,
      concat (replicate m [Retriever_invoke topic, Sleep 5]) @ [Retriever_invoke topic])"
    by (rule Suc.IH)
  with n msg show ?case by simp
qed

lemma retrieve_loop_exhausted:
  "(\<forall>j<n. \<exists>msg. retr (k + j) = IngestionInProgressException msg) \<Longrightarrow>
   retrieve_loop retr topic n k =
     (Inr None, 0, concat (replicate n [Retriever_invoke topic, Sleep 5]))"
proof (induction n arbitrary: k)
  case 0
  show ?case by simp
next
  case (Suc n)
  from Suc.prems have "\<exists>msg. retr (k + 0) = IngestionInProgressException msg"
    by blast
  then obtain msg where msg: "retr k = IngestionInProgressException msg" by auto
  have "\<forall>j<n. \<exists>msg. retr (Suc k + j) = IngestionInProgressException msg"
  proof (intro allI impI)
    fix j assume "j < n"
    then have "Suc j < Suc n" by simp
    with Suc.prems have "\<exists>msg. retr (k + Suc j) = IngestionInProgressException msg"
      by blast
    then show "\<exists>msg. retr (Suc k + j) = IngestionInProgressException msg" by simp
  qed
  then have "retrieve_loop retr topic n (Suc k) =
     (Inr None, 0, concat (replicate n [Retriever_invoke topic, Sleep 5]))"
    by (rule Suc.IH)
  with msg show ?case by simp
qed

subsection \<open>Events of a generation step and one cycle of the graph\<close>

lemma filter_sleep_waits:
  "length (filter is_sleep (concat (replicate m [Retriever_invoke topic, Sleep 5]))) = m"
  by (induction m) auto

lemma filter_invoke_waits:
  "length (filter is_retriever_invoke (concat (replicate m [Retriever_invoke topic, Sleep 5]))) = m"
  by (induction m) auto

lemma retrieve_loop_events:
  "retrieve_loop retr topic n k = (r, left, ev) \<Longrightarrow>
   filter is_interrupt ev = [] \<and> filter is_llm_invoke ev = []"
proof (induction n arbitrary: k r left ev)
  case 0
  then show ?case by simp
next
  case (Suc n)
  show ?case
  proof (cases "retr k")
    case (Documents ds)
    with Suc.prems show ?thesis by auto
  next
    case (IngestionInProgressException msg)
    obtain r' left' ev' where rec: "retrieve_loop retr topic n (Suc k) = (r', left', ev')"
      by (cases "retrieve_loop retr topic n (Suc k)") auto
    from Suc.IH [OF rec] have "filter is_interrupt ev' = [] \<and> filter is_llm_invoke ev' = []" .
    moreover from Suc.prems IngestionInProgressException rec
    have "ev = Retriever_invoke topic # Sleep 5 # ev'" by simp
    ultimately show ?thesis by simp
  next
    case (Raises e)
    with Suc.prems show ?thesis by auto
  qed
qed

lemma retrieve_context_events:
  "retrieve_context retr topic = (r, ev) \<Longrightarrow>
   filter is_interrupt ev = [] \<and> filter is_llm_invoke ev = []"
proof -
  assume a: "retrieve_context retr topic = (r, ev)"
  obtain r' left' ev' where rec: "retrieve_loop retr topic 5 0 = (r', left', ev')"
    by (cases "retrieve_loop retr topic 5 0") auto
  from a rec have "ev = ev'"
    by (auto simp: retrieve_context_def split: sum.splits option.splits if_splits)
  with retrieve_loop_events [OF rec] show ?thesis by simp
qed

lemma create_quiz_raise:
  "retrieve_context retr (st_quiz_topic state) = (Inl e, ev) \<Longrightarrow>
   create_quiz state retr result =
     (Raise e, [Get_or_create_index (st_index_name state) (st_bucket_name state), Ingest_data] @ ev)"
  by (simp add: create_quiz_def)

lemma create_quiz_goto_end:
  "retrieve_context retr (st_quiz_topic state) = (Inr ds, ev) \<Longrightarrow>
   output_parser_parse result = Inl e \<Longrightarrow>
   create_quiz state retr result =
     (Goto_END, [Get_or_create_index (st_index_name state) (st_bucket_name state), Ingest_data]
                 @ ev @ [Llm_invoke (st_quiz_topic state) ds])"
  by (simp add: create_quiz_def)

lemma create_quiz_parsed:
  "retrieve_context retr (st_quiz_topic state) = (Inr ds, ev) \<Longrightarrow>
   output_parser_parse result = Inr r \<Longrightarrow>
   create_quiz state retr result =
     (Update (create_quiz_update state r),
      [Get_or_create_index (st_index_name state) (st_bucket_name state), Ingest_data]
        @ ev @ [Llm_invoke (st_quiz_topic state) ds])"
  by (simp add: create_quiz_def)

lemma request_fields:
  "st_quiz_topic (fst (invoke_researcher_request state)) = st_quiz_topic state \<and>
   st_additional_info (fst (invoke_researcher_request state)) = st_additional_info state \<and>
   st_quiz (fst (invoke_researcher_request state)) = st_quiz state \<and>
   st_index_name (fst (invoke_researcher_request state)) = st_index_name state \<and>
   st_bucket_name (fst (invoke_researcher_request state)) = st_bucket_name state"
  by (simp add: invoke_researcher_request_def Let_def)

lemma resume_fields:
  "invoke_researcher_resume state1 resp = Inr state2 \<Longrightarrow>
   st_quiz_topic state2 = st_quiz_topic state1 \<and>
   st_additional_info state2 = st_additional_info state1 \<and>
   st_quiz state2 = st_quiz state1 \<and>
   st_index_name state2 = st_index_name state1 \<and>
   st_bucket_name state2 = st_bucket_name state1"
  by (auto simp: invoke_researcher_resume_def split: if_splits)

lemma resume_ok:
  "resp \<noteq> [] \<Longrightarrow> \<exists>state2. invoke_researcher_resume state1 resp = Inr state2"
  by (simp add: invoke_researcher_resume_def)

text \<open>The state in which \<open>create_quiz\<close> starts: both passes of \<open>invoke_researcher\<close>
  have appended the human message, and the answer has added two more.\<close>

lemma researcher_cycle:
  assumes "agent_response c \<noteq> []"
  shows "\<exists>state2.
           invoke_researcher_resume
             (fst (invoke_researcher_request (fst (invoke_researcher_request state))))
             (agent_response c) = Inr state2 \<and>
           st_quiz_topic state2 = st_quiz_topic state \<and>
           st_additional_info state2 = st_additional_info state \<and>
           st_quiz state2 = st_quiz state \<and>
           st_messages state2 = st_messages state @
             [HumanMessage (if st_additional_info state \<noteq> Some ''false''
                            then format_str (st_additional_info state)
                            else ''Fetch data about '' @ st_general_category state),
              HumanMessage (if st_additional_info state \<noteq> Some ''false''
                            then format_str (st_additional_info state)
                            else ''Fetch data about '' @ st_general_category state),
              last (agent_response c),
              HumanMessage (''create a quiz about '' @ st_quiz_topic state)]"
  using assms
  by (simp add: invoke_researcher_request_def invoke_researcher_resume_def Let_def)

text \<open>One cycle of the graph whose generation step parsed a result \<open>r\<close>.\<close>

lemma run_graph_parsed:
  assumes "agent_response c \<noteq> []"
    and "retrieve_context (retriever c) (st_quiz_topic state) = (Inr ds, ev)"
    and "output_parser_parse (llm_result c) = Inr r"
  shows "\<exists>state2 evs.
           st_quiz_topic state2 = st_quiz_topic state \<and>
           st_messages state2 = st_messages state @
             [HumanMessage (if st_additional_info state \<noteq> Some ''false''
                            then format_str (st_additional_info state)
                            else ''Fetch data about '' @ st_general_category state),
              HumanMessage (if st_additional_info state \<noteq> Some ''false''
                            then format_str (st_additional_info state)
                            else ''Fetch data about '' @ st_general_category state),
              last (agent_response c),
              HumanMessage (''create a quiz about '' @ st_quiz_topic state)] \<and>
           filter is_interrupt evs = [] \<and>
           length (filter is_llm_invoke evs) = 1 \<and>
           run_graph state (c # cs) =
             (case check_quiz_creation (create_quiz_update state2 r) of
                Return_quiz \<Rightarrow>
                  (case return_quiz (create_quiz_update state2 r) of
                     Inl e \<Rightarrow> (Raised e, Interrupt (snd (invoke_researcher_request state)) # evs)
                   | Inr out \<Rightarrow> (Output out, Interrupt (snd (invoke_researcher_request state)) # evs))
              | Invoke_researcher \<Rightarrow>
                  (case run_graph (create_quiz_update state2 r) cs of
                     (res, ev') \<Rightarrow>
                       (res, Interrupt (snd (invoke_researcher_request state)) # evs @ ev')))"
proof -
  obtain state1 req where rq: "invoke_researcher_request state = (state1, req)"
    by (cases "invoke_researcher_request state") auto
  from researcher_cycle [OF assms(1), of state] rq obtain state2 where
    rs: "invoke_researcher_resume (fst (invoke_researcher_request state1))
           (agent_response c) = Inr state2"
    and t2: "st_quiz_topic state2 = st_quiz_topic state"
    and m: "st_messages state2 = st_messages state @
             [HumanMessage (if st_additional_info state \<noteq> Some ''false''
                            then format_str (st_additional_info state)
                            else ''Fetch data about '' @ st_general_category state),
              HumanMessage (if st_additional_info state \<noteq> Some ''false''
                            then format_str (st_additional_info state)
                            else ''Fetch data about '' @ st_general_category state),
              last (agent_response c),
              HumanMessage (''create a quiz about '' @ st_quiz_topic state)]"
    by auto
  let ?evs = "[Get_or_create_index (st_index_name state2) (st_bucket_name state2), Ingest_data]
                @ ev @ [Llm_invoke (st_quiz_topic state2) ds]"
  have cq: "create_quiz state2 (retriever c) (llm_result c) =
              (Update (create_quiz_update state2 r), ?evs)"
    using assms(2,3) t2 by (simp add: create_quiz_parsed)
  have noint: "filter is_interrupt ev = [] \<and> filter is_llm_invoke ev = []"
    using retrieve_context_events [OF assms(2)] .
  have e1: "filter is_interrupt ?evs = []" using noint by simp
  have e2: "length (filter is_llm_invoke ?evs) = 1" using noint by simp
  have run: "run_graph state (c # cs) =
             (case check_quiz_creation (create_quiz_update state2 r) of
                Return_quiz \<Rightarrow>
                  (case return_quiz (create_quiz_update state2 r) of
                     Inl e \<Rightarrow> (Raised e, Interrupt (snd (invoke_researcher_request state)) # ?evs)
                   | Inr out \<Rightarrow> (Output out, Interrupt (snd (invoke_researcher_request state)) # ?evs))
              | Invoke_researcher \<Rightarrow>
                  (case run_graph (create_quiz_update state2 r) cs of
                     (res, ev') \<Rightarrow>
                       (res, Interrupt (snd (invoke_researcher_request state)) # ?evs @ ev')))"
    using rq rs cq
    by (simp add: after_create_quiz_def split: node.splits sum.splits prod.splits)
  from t2 m e1 e2 run show ?thesis by blast
qed

text \<open>One cycle of the graph whose generation step failed to parse: the state is the
  one \<open>create_quiz\<close> started in, and the conditional edge routes on it.\<close>

lemma run_graph_parse_failed:
  assumes "agent_response c \<noteq> []"
    and "retrieve_context (retriever c) (st_quiz_topic state) = (Inr ds, ev)"
    and "output_parser_parse (llm_result c) = Inl e"
  shows "\<exists>state2 evs.
           st_quiz_topic state2 = st_quiz_topic state \<and>
           st_additional_info state2 = st_additional_info state \<and>
           st_quiz state2 = st_quiz state \<and>
           filter is_interrupt evs = [] \<and>
           length (filter is_llm_invoke evs) = 1 \<and>
           run_graph state (c # cs) =
             (case check_quiz_creation state2 of
                Return_quiz \<Rightarrow>
                  (case return_quiz state2 of
                     Inl e \<Rightarrow> (Raised e, Interrupt (snd (invoke_researcher_request state)) # evs)
                   | Inr out \<Rightarrow> (Output out, Interrupt (snd (invoke_researcher_request state)) # evs))
              | Invoke_researcher \<Rightarrow>
                  (case run_graph state2 cs of
                     (res, ev') \<Rightarrow>
                       (res, Interrupt (snd (invoke_researcher_request state)) # evs @ ev')))"
proof -
  obtain state1 req where rq: "invoke_researcher_request state = (state1, req)"
    by (cases "invoke_researcher_request state") auto
  from researcher_cycle [OF assms(1), of state] rq obtain state2 where
    rs: "invoke_researcher_resume (fst (invoke_researcher_request state1))
           (agent_response c) = Inr state2"
    and t2: "st_quiz_topic state2 = st_quiz_topic state"
    and a2: "st_additional_info state2 = st_additional_info state"
    and q2: "st_quiz state2 = st_quiz state"
    by auto
  let ?evs = "[Get_or_create_index (st_index_name state2) (st_bucket_name state2), Ingest_data]
                @ ev @ [Llm_invoke (st_quiz_topic state2) ds]"
  have cq: "create_quiz state2 (retriever c) (llm_result c) = (Goto_END, ?evs)"
    using assms(2,3) t2 by (simp add: create_quiz_goto_end)
  have noint: "filter is_interrupt ev = [] \<and> filter is_llm_invoke ev = []"
    using retrieve_context_events [OF assms(2)] .
  have e1: "filter is_interrupt ?evs = []" using noint by simp
  have e2: "length (filter is_llm_invoke ?evs) = 1" using noint by simp
  have run: "run_graph state (c # cs) =
             (case check_quiz_creation state2 of
                Return_quiz \<Rightarrow>
                  (case return_quiz state2 of
                     Inl e \<Rightarrow> (Raised e, Interrupt (snd (invoke_researcher_request state)) # ?evs)
                   | Inr out \<Rightarrow> (Output out, Interrupt (snd (invoke_researcher_request state)) # ?evs))
              | Invoke_researcher \<Rightarrow>
                  (case run_graph state2 cs of
                     (res, ev') \<Rightarrow>
                       (res, Interrupt (snd (invoke_researcher_request state)) # ?evs @ ev')))"
    using rq rs cq
    by (simp add: after_create_quiz_def split: node.splits sum.splits prod.splits)
  from t2 a2 q2 e1 e2 run show ?thesis by blast
qed

subsection \<open>The sufficiency decision\<close>

text \<open>
  Claim C1. For every parsed generation result whose \<open>additional_info\<close> is \<open>"false"\<close>
  and whose quiz is present, \<open>check_quiz_creation\<close> routes to \<open>return_quiz\<close>, and
  the output of the workflow is that quiz, unchanged.
\<close>

theorem sufficient_result_returns_quiz:
  assumes "additional_info r = Some ''false''" and "quiz r = Some q"
  shows "check_quiz_creation (create_quiz_update state r) = Return_quiz \<and>
         return_quiz (create_quiz_update state r) = Inr \<lparr>out_quiz = q\<rparr> \<and>
         (\<forall>c cs ds ev.
            agent_response c \<noteq> [] \<and>
            retrieve_context (retriever c) (st_quiz_topic state) = (Inr ds, ev) \<and>
            output_parser_parse (llm_result c) = Inr r
            \<longrightarrow> fst (run_graph state (c # cs)) = Output \<lparr>out_quiz = q\<rparr>)"
proof -
  have route: "\<And>s. check_quiz_creation (create_quiz_update s r) = Return_quiz"
    using assms(1) by (simp add: check_quiz_creation_def create_quiz_update_def)
  have ret: "\<And>s. return_quiz (create_quiz_update s r) = Inr \<lparr>out_quiz = q\<rparr>"
    using assms by (simp add: return_quiz_def create_quiz_update_def)
  have "fst (run_graph state (c # cs)) = Output \<lparr>out_quiz = q\<rparr>"
    if "agent_response c \<noteq> []"
      and "retrieve_context (retriever c) (st_quiz_topic state) = (Inr ds, ev)"
      and "output_parser_parse (llm_result c) = Inr r"
    for c cs ds ev
    using run_graph_parsed [OF that, of cs] route ret by auto
  with route ret show ?thesis by blast
qed

theorem sufficient_result_returns_quiz_witness:
  "fst (run_graph
        \<lparr>st_messages = [], st_general_category = ''space'', st_quiz_topic = ''black holes'',
         st_bucket_name = ''b'', st_bucket_folder = None, st_index_name = ''i'',
         st_additional_info = Some ''false'', st_quiz = Absent\<rparr>
        [\<lparr>agent_response = [AIMessage ''Relevant information uploaded to bucket.''],
          retriever = (\<lambda>k. Documents [''doc'']),
          llm_result = Json_fields
            (Some \<lparr>quiz_items = [\<lparr>question = ''q1'', difficulty = 1/2, answer = ''a1''\<rparr>]\<rparr>)
            (Some ''false'')\<rparr>])
   = Output \<lparr>out_quiz = \<lparr>quiz_items = [\<lparr>question = ''q1'', difficulty = 1/2, answer = ''a1''\<rparr>]\<rparr>\<rparr>"
proof -
  let ?q = "\<lparr>quiz_items = [\<lparr>question = ''q1'', difficulty = 1/2, answer = ''a1''\<rparr>]\<rparr>"
  let ?r = "\<lparr>quiz = Some ?q, additional_info = Some ''false''\<rparr>"
  let ?c = "\<lparr>agent_response = [AIMessage ''Relevant information uploaded to bucket.''],
          retriever = (\<lambda>k. Documents [''doc'']),
          llm_result = Json_fields (Some ?q) (Some ''false'')\<rparr>"
  let ?s = "\<lparr>st_messages = [], st_general_category = ''space'', st_quiz_topic = ''black holes'',
         st_bucket_name = ''b'', st_bucket_folder = None, st_index_name = ''i'',
         st_additional_info = Some ''false'', st_quiz = Absent\<rparr>"
  have h1: "additional_info ?r = Some ''false''" by simp
  have h2: "quiz ?r = Some ?q" by simp
  have h3: "agent_response ?c \<noteq> []" by simp
  have h4: "retrieve_context (retriever ?c) (st_quiz_topic ?s) =
              (Inr [''doc''], [Retriever_invoke ''black holes''])"
    by (simp add: retrieve_context_def eval_nat_numeral)
  have h5: "output_parser_parse (llm_result ?c) = Inr ?r"
    by (simp add: output_parser_parse_def QuizOrInsufficientInfo_init_def check_quiz_def
        dict_get_def Quiz_ok_def QuizItem_ok_def)
  note run = conjunct2 [OF conjunct2 [OF sufficient_result_returns_quiz [OF h1 h2, of ?s]]]
  show ?thesis
    by (rule run [rule_format, OF conjI [OF h3 conjI [OF h4 h5]]])
qed

text \<open>
  Claim C2. For every parsed generation result whose \<open>additional_info\<close> is anything but
  \<open>"false"\<close>, \<open>check_quiz_creation\<close> routes back to \<open>invoke_researcher\<close>; the quiz of
  the result, if any, is not stored; and the next request to the researcher ends with
  a human message that is the \<open>additional_info\<close> text itself (for \<open>None\<close>, what the
  f-string prints for it).
\<close>

theorem insufficient_result_routes_to_research:
  assumes "additional_info r \<noteq> Some ''false''"
  shows "check_quiz_creation (create_quiz_update state r) = Invoke_researcher \<and>
         st_quiz (create_quiz_update state r) = Present None \<and>
         st_messages (fst (invoke_researcher_request (create_quiz_update state r))) =
           st_messages state @ [HumanMessage (format_str (additional_info r))] \<and>
         arg_messages (snd (invoke_researcher_request (create_quiz_update state r))) =
           st_messages state @ [HumanMessage (format_str (additional_info r))] \<and>
         (\<forall>gap. additional_info r = Some gap \<longrightarrow>
            last (arg_messages (snd (invoke_researcher_request (create_quiz_update state r))))
              = HumanMessage gap) \<and>
         (\<forall>c ds ev.
            agent_response c \<noteq> [] \<and>
            retrieve_context (retriever c) (st_quiz_topic state) = (Inr ds, ev) \<and>
            output_parser_parse (llm_result c) = Inr r
            \<longrightarrow> (\<exists>req. fst (run_graph state [c]) = Suspended req \<and>
                      last (arg_messages req) = HumanMessage (format_str (additional_info r))))"
proof -
  have route: "\<And>s. check_quiz_creation (create_quiz_update s r) = Invoke_researcher"
    using assms by (simp add: check_quiz_creation_def create_quiz_update_def)
  have noquiz: "st_quiz (create_quiz_update state r) = Present None"
    using assms by (simp add: create_quiz_update_def)
  have msgs: "\<And>s. st_messages (fst (invoke_researcher_request (create_quiz_update s r))) =
           st_messages s @ [HumanMessage (format_str (additional_info r))]"
    using assms by (simp add: invoke_researcher_request_def create_quiz_update_def Let_def)
  have args: "\<And>s. arg_messages (snd (invoke_researcher_request (create_quiz_update s r))) =
           st_messages s @ [HumanMessage (format_str (additional_info r))]"
    using assms by (simp add: invoke_researcher_request_def create_quiz_update_def Let_def)
  have verbatim: "\<forall>gap. additional_info r = Some gap \<longrightarrow>
            last (arg_messages (snd (invoke_researcher_request (create_quiz_update state r))))
              = HumanMessage gap"
    using args [of state] by (simp add: format_str_def)
  have "\<exists>req. fst (run_graph state [c]) = Suspended req \<and>
              last (arg_messages req) = HumanMessage (format_str (additional_info r))"
    if "agent_response c \<noteq> []"
      and "retrieve_context (retriever c) (st_quiz_topic state) = (Inr ds, ev)"
      and "output_parser_parse (llm_result c) = Inr r"
    for c ds ev
  proof -
    from run_graph_parsed [OF that, of "[]"] route
    obtain state2 evs where
      run: "run_graph state [c] =
              (case run_graph (create_quiz_update state2 r) [] of
                 (res, ev') \<Rightarrow> (res, Interrupt (snd (invoke_researcher_request state)) # evs @ ev'))"
      by auto
    have "fst (run_graph state [c]) =
            Suspended (snd (invoke_researcher_request (create_quiz_update state2 r)))"
      unfolding run by (simp split: prod.splits)
    with args [of state2] show ?thesis by simp
  qed
  with route noquiz msgs args verbatim show ?thesis by blast
qed

theorem insufficient_result_routes_to_research_witness:
  "check_quiz_creation
     (create_quiz_update
        \<lparr>st_messages = [HumanMessage ''Fetch data about space''],
         st_general_category = ''space'', st_quiz_topic = ''black holes'',
         st_bucket_name = ''b'', st_bucket_folder = None, st_index_name = ''i'',
         st_additional_info = Some ''false'', st_quiz = Absent\<rparr>
        \<lparr>quiz = Some \<lparr>quiz_items = [\<lparr>question = ''q1'', difficulty = 1/2, answer = ''a1''\<rparr>]\<rparr>,
         additional_info = Some ''mass of Sagittarius A*''\<rparr>) = Invoke_researcher \<and>
   st_quiz
     (create_quiz_update
        \<lparr>st_messages = [HumanMessage ''Fetch data about space''],
         st_general_category = ''space'', st_quiz_topic = ''black holes'',
         st_bucket_name = ''b'', st_bucket_folder = None, st_index_name = ''i'',
         st_additional_info = Some ''false'', st_quiz = Absent\<rparr>
        \<lparr>quiz = Some \<lparr>quiz_items = [\<lparr>question = ''q1'', difficulty = 1/2, answer = ''a1''\<rparr>]\<rparr>,
         additional_info = Some ''mass of Sagittarius A*''\<rparr>) = Present None \<and>
   arg_messages (snd (invoke_researcher_request
     (create_quiz_update
        \<lparr>st_messages = [HumanMessage ''Fetch data about space''],
         st_general_category = ''space'', st_quiz_topic = ''black holes'',
         st_bucket_name = ''b'', st_bucket_folder = None, st_index_name = ''i'',
         st_additional_info = Some ''false'', st_quiz = Absent\<rparr>
        \<lparr>quiz = Some \<lparr>quiz_items = [\<lparr>question = ''q1'', difficulty = 1/2, answer = ''a1''\<rparr>]\<rparr>,
         additional_info = Some ''mass of Sagittarius A*''\<rparr>)))
     = [HumanMessage ''Fetch data about space'', HumanMessage ''mass of Sagittarius A*'']"
proof -
  let ?s = "\<lparr>st_messages = [HumanMessage ''Fetch data about space''],
         st_general_category = ''space'', st_quiz_topic = ''black holes'',
         st_bucket_name = ''b'', st_bucket_folder = None, st_index_name = ''i'',
         st_additional_info = Some ''false'', st_quiz = Absent\<rparr>"
  let ?r = "\<lparr>quiz = Some \<lparr>quiz_items = [\<lparr>question = ''q1'', difficulty = 1/2, answer = ''a1''\<rparr>]\<rparr>,
         additional_info = Some ''mass of Sagittarius A*''\<rparr>"
  have h: "additional_info ?r \<noteq> Some ''false''" by simp
  note a = insufficient_result_routes_to_research [OF h, of ?s]
  note c1 = conjunct1 [OF a]
  note c2 = conjunct1 [OF conjunct2 [OF a]]
  note c4 = conjunct1 [OF conjunct2 [OF conjunct2 [OF conjunct2 [OF a]]]]
  have m: "st_messages ?s @ [HumanMessage (format_str (additional_info ?r))] =
           [HumanMessage ''Fetch data about space'', HumanMessage ''mass of Sagittarius A*'']"
    by (simp add: format_str_def)
  show ?thesis
    using c1 c2 c4 [unfolded m] by (intro conjI)
qed

subsection \<open>Failures of the retrieval step\<close>

text \<open>
  Claim C5. When the retriever raises anything but the ingestion-in-progress signal,
  after \<open>m < 5\<close> attempts that raised the signal, the exception leaves \<open>create_quiz\<close>
  as it is. The attempt that raised it took no retry (\<open>no_of_retries\<close> is \<open>5 - m\<close>,
  down by the \<open>m\<close> signals only), is followed by no sleep and no further attempt, and
  is not turned into the error of the exhausted loop. With \<open>m = 0\<close> the first attempt
  fails so.
\<close>

theorem other_retrieval_failure_propagates:
  assumes "\<forall>j<m. \<exists>msg. retr j = IngestionInProgressException msg"
    and "retr m = Raises e"
    and "m < 5"
  shows "retrieve_loop retr topic 5 0 =
           (Inl e, 5 - m,
            concat (replicate m [Retriever_invoke topic, Sleep 5]) @ [Retriever_invoke topic]) \<and>
         retrieve_context retr topic =
           (Inl e,
            concat (replicate m [Retriever_invoke topic, Sleep 5]) @ [Retriever_invoke topic]) \<and>
         length (filter is_sleep (snd (retrieve_context retr topic))) = m \<and>
         length (filter is_retriever_invoke (snd (retrieve_context retr topic))) = Suc m \<and>
         fst (create_quiz state retr result) = Raise e"
proof -
  have loop: "retrieve_loop retr topic 5 0 =
           (Inl e, 5 - m,
            concat (replicate m [Retriever_invoke topic, Sleep 5]) @ [Retriever_invoke topic])"
    for topic
    using retrieve_loop_raises [of m retr 0 e 5 topic] assms by simp
  have ctx: "retrieve_context retr topic =
           (Inl e,
            concat (replicate m [Retriever_invoke topic, Sleep 5]) @ [Retriever_invoke topic])"
    for topic
    by (simp add: retrieve_context_def loop)
  have sl: "length (filter is_sleep (snd (retrieve_context retr topic))) = m"
    by (simp add: ctx filter_sleep_waits)
  have inv: "length (filter is_retriever_invoke (snd (retrieve_context retr topic))) = Suc m"
    by (simp add: ctx filter_invoke_waits)
  have cq: "fst (create_quiz state retr result) = Raise e"
    by (simp add: create_quiz_raise [OF ctx])
  from loop ctx sl inv cq show ?thesis by blast
qed

theorem other_retrieval_failure_propagates_witness:
  "retrieve_context
     (\<lambda>k. if k < 2 then IngestionInProgressException ''ingestion in progress''
          else Raises (RetrieverError ''index not found''))
     ''black holes''
   = (Inl (RetrieverError ''index not found''),
      [Retriever_invoke ''black holes'', Sleep 5,
       Retriever_invoke ''black holes'', Sleep 5,
       Retriever_invoke ''black holes''])"
proof -
  let ?retr = "\<lambda>k::nat. if k < 2 then IngestionInProgressException ''ingestion in progress''
          else Raises (RetrieverError ''index not found'')"
  have h1: "\<forall>j<2. \<exists>msg. ?retr j = IngestionInProgressException msg" by simp
  have h2: "?retr 2 = Raises (RetrieverError ''index not found'')" by simp
  have h3: "(2::nat) < 5" by simp
  note a = other_retrieval_failure_propagates [OF h1 h2 h3, of "''black holes''"]
  have w: "concat (replicate 2 [Retriever_invoke ''black holes'', Sleep 5])
             @ [Retriever_invoke ''black holes'']
           = [Retriever_invoke ''black holes'', Sleep 5,
              Retriever_invoke ''black holes'', Sleep 5,
              Retriever_invoke ''black holes'']"
    by (simp add: eval_nat_numeral)
  show ?thesis
    using conjunct1 [OF conjunct2 [OF a]] unfolding w .
qed

subsection \<open>Retries of the retrieval step\<close>

text \<open>
  The retriever signals ingestion \<open>m \<le> 4\<close> times and then returns a non-empty list of
  documents: \<open>create_quiz\<close> goes on with these documents after exactly \<open>m\<close> sleeps of
  5 seconds and \<open>m + 1\<close> attempts.
\<close>

lemma retrieve_context_documents:
  assumes "\<forall>j<m. \<exists>msg. retr j = IngestionInProgressException msg"
    and "retr m = Documents ds"
    and "m \<le> 4"
    and "ds \<noteq> []"
  shows "retrieve_context retr topic =
           (Inr ds,
            concat (replicate m [Retriever_invoke topic, Sleep 5]) @ [Retriever_invoke topic])"
proof -
  have "retrieve_loop retr topic 5 0 =
           (Inr (Some ds), 5 - m,
            concat (replicate m [Retriever_invoke topic, Sleep 5]) @ [Retriever_invoke topic])"
    using retrieve_loop_documents [of m retr 0 ds 5 topic] assms by simp
  with assms(4) show ?thesis by (simp add: retrieve_context_def)
qed

text \<open>
  The retriever signals ingestion on each of the first five attempts: the loop stops
  after five attempts (and five sleeps) and \<open>create_quiz\<close> raises the error of the
  exhausted loop, whatever a sixth attempt would have returned.
\<close>

lemma retrieve_context_exhausted:
  assumes "\<forall>j<5. \<exists>msg. retr j = IngestionInProgressException msg"
  shows "retrieve_context retr topic =
           (Inl (Exception ''Ingestion is taking too long!''),
            concat (replicate 5 [Retriever_invoke topic, Sleep 5]))"
proof -
  have "retrieve_loop retr topic 5 0 =
           (Inr None, 0, concat (replicate 5 [Retriever_invoke topic, Sleep 5]))"
    using retrieve_loop_exhausted [of 5 retr 0 topic] assms by simp
  then show ?thesis by (simp add: retrieve_context_def)
qed

text \<open>
  Claim C3. The claim says that a retrieval that succeeds after at most four signals
  gives its context to the generation. \<open>if not context_data\<close> also holds for a
  retrieval that succeeded with an empty list of documents: on the very first attempt,
  with no signal raised and no wait, \<open>create_quiz\<close> raises the error of the exhausted
  loop.
\<close>

theorem empty_retrieval_raises_taking_too_long:
  "retrieve_loop (\<lambda>k. Documents []) topic 5 0 = (Inr (Some []), 5, [Retriever_invoke topic]) \<and>
   retrieve_context (\<lambda>k. Documents []) topic =
     (Inl (Exception ''Ingestion is taking too long!''), [Retriever_invoke topic]) \<and>
   fst (create_quiz state (\<lambda>k. Documents []) result) =
     Raise (Exception ''Ingestion is taking too long!'')"
proof -
  have loop: "retrieve_loop (\<lambda>k. Documents []) topic 5 0 =
                (Inr (Some []), 5, [Retriever_invoke topic])" for topic
    by (simp add: eval_nat_numeral)
  have ctx: "retrieve_context (\<lambda>k. Documents []) topic =
     (Inl (Exception ''Ingestion is taking too long!''), [Retriever_invoke topic])" for topic
    by (simp add: retrieve_context_def loop)
  have "fst (create_quiz state (\<lambda>k. Documents []) result) =
     Raise (Exception ''Ingestion is taking too long!'')"
    by (simp add: create_quiz_raise [OF ctx])
  with loop ctx show ?thesis by blast
qed

subsection \<open>Failure of the parse\<close>

text \<open>
  Claim C4. The claim says that a failed parse ends the workflow at once, with no
  quiz, no retry and no error. \<open>create_quiz\<close> returns \<open>Command(goto=END)\<close> then, but
  the conditional edge of line 179 still routes on the state, which the command has
  not changed. In the first cycle \<open>additional_info\<close> is still \<open>"false"\<close>: \<open>return_quiz\<close>
  runs and \<open>state["quiz"]\<close> raises \<open>KeyError\<close> to the caller. After a cycle that asked
  for more information \<open>additional_info\<close> is still that text: the run goes back to
  \<open>invoke_researcher\<close> and asks the researcher a third time.
\<close>

theorem parse_failure_does_not_end_run:
  "graph
     \<lparr>general_category = ''space'', quiz_topic = ''black holes'', bucket_name = ''b'',
      index_name = ''i'', bucket_folder = None\<rparr>
     [\<lparr>agent_response = [AIMessage ''Relevant information uploaded to bucket.''],
       retriever = (\<lambda>k. Documents [''doc'']),
       llm_result = Malformed\<rparr>]
   = (Raised (KeyError ''quiz''),
      [Interrupt \<lparr>name = ''researcher-and-uploader-agent'',
                  arg_messages = [HumanMessage ''Fetch data about space''],
                  arg_bucket_name = ''b'', arg_bucket_folder = None\<rparr>,
       Get_or_create_index ''i'' ''b'', Ingest_data, Retriever_invoke ''black holes'',
       Llm_invoke ''black holes'' [''doc'']]) \<and>
   (\<exists>req. fst (graph
       \<lparr>general_category = ''space'', quiz_topic = ''black holes'', bucket_name = ''b'',
        index_name = ''i'', bucket_folder = None\<rparr>
       [\<lparr>agent_response = [AIMessage ''Relevant information uploaded to bucket.''],
         retriever = (\<lambda>k. Documents [''doc'']),
         llm_result = Json_fields None (Some ''event horizon'')\<rparr>,
        \<lparr>agent_response = [AIMessage ''Relevant information uploaded to bucket.''],
         retriever = (\<lambda>k. Documents [''doc'']),
         llm_result = Malformed\<rparr>]) = Suspended req \<and>
      last (arg_messages req) = HumanMessage ''event horizon'') \<and>
   length (filter is_interrupt (snd (graph
       \<lparr>general_category = ''space'', quiz_topic = ''black holes'', bucket_name = ''b'',
        index_name = ''i'', bucket_folder = None\<rparr>
       [\<lparr>agent_response = [AIMessage ''Relevant information uploaded to bucket.''],
         retriever = (\<lambda>k. Documents [''doc'']),
         llm_result = Json_fields None (Some ''event horizon'')\<rparr>,
        \<lparr>agent_response = [AIMessage ''Relevant information uploaded to bucket.''],
         retriever = (\<lambda>k. Documents [''doc'']),
         llm_result = Malformed\<rparr>]))) = 3"
proof -
  have ctx: "retrieve_context (\<lambda>k. Documents [''doc'']) ''black holes'' =
               (Inr [''doc''], [Retriever_invoke ''black holes''])"
    by (simp add: retrieve_context_def eval_nat_numeral)
  have p: "output_parser_parse (Json_fields None (Some ''event horizon'')) =
             Inr \<lparr>quiz = None, additional_info = Some ''event horizon''\<rparr>"
    by (simp add: output_parser_parse_def QuizOrInsufficientInfo_init_def check_quiz_def
        dict_get_def)
  have m: "output_parser_parse Malformed = Inl OutputParserException"
    by (simp add: output_parser_parse_def)
  note defs = graph_def prepare_input_def invoke_researcher_request_def
    invoke_researcher_resume_def Let_def create_quiz_def ctx p m after_create_quiz_def
    check_quiz_creation_def create_quiz_update_def return_quiz_def format_str_def
  show ?thesis
    by (simp add: defs)
qed

subsection \<open>The loop between research and generation\<close>

lemma filter_takeWhile_Nil:
  "filter Q xs = [] \<Longrightarrow> filter Q (takeWhile P xs) = []"
  by (induction xs) (auto split: if_splits)

lemma create_quiz_events:
  assumes "create_quiz state retr result = (res, evs)"
  shows "filter is_interrupt evs = [] \<and>
         ((\<exists>e. res = Raise e) \<or> (\<exists>x\<in>set evs. is_llm_invoke x))"
proof -
  obtain rc ev where rc: "retrieve_context retr (st_quiz_topic state) = (rc, ev)"
    by (cases "retrieve_context retr (st_quiz_topic state)") auto
  have noint: "filter is_interrupt ev = []"
    using retrieve_context_events [OF rc] by simp
  show ?thesis
  proof (cases rc)
    case (Inl e)
    with rc assms noint show ?thesis by (auto simp: create_quiz_def)
  next
    case (Inr ds)
    with rc assms noint show ?thesis
      by (auto simp: create_quiz_def Let_def split: sum.splits)
  qed
qed

text \<open>Every run starts with the request to the researcher, and asks for no other
  research before the first model call.\<close>

lemma run_graph_first_events:
  "\<exists>rest. snd (run_graph state cs) = Interrupt (snd (invoke_researcher_request state)) # rest \<and>
          filter is_interrupt (takeWhile (\<lambda>x. \<not> is_llm_invoke x) rest) = []"
proof (cases cs)
  case Nil
  then show ?thesis by (simp split: prod.splits)
next
  case (Cons c cs')
  obtain state1 req where rq: "invoke_researcher_request state = (state1, req)"
    by (cases "invoke_researcher_request state") auto
  show ?thesis
  proof (cases "invoke_researcher_resume (fst (invoke_researcher_request state1))
                  (agent_response c)")
    case (Inl e)
    with Cons rq show ?thesis by simp
  next
    case (Inr state2)
    obtain res evs where cq: "create_quiz state2 (retriever c) (llm_result c) = (res, evs)"
      by (cases "create_quiz state2 (retriever c) (llm_result c)") auto
    from create_quiz_events [OF cq]
    have noint: "filter is_interrupt evs = []"
      and llm: "(\<exists>e. res = Raise e) \<or> (\<exists>x\<in>set evs. is_llm_invoke x)" by auto
    have tw: "filter is_interrupt (takeWhile (\<lambda>x. \<not> is_llm_invoke x) evs) = []"
      using noint by (rule filter_takeWhile_Nil)
    show ?thesis
    proof (cases "after_create_quiz state2 res")
      case (Inl e)
      with Cons rq Inr cq tw show ?thesis by simp
    next
      case state3: (Inr state3)
      then have "\<not> (\<exists>e. res = Raise e)"
        by (auto simp: after_create_quiz_def)
      with llm obtain x where x: "x \<in> set evs" "is_llm_invoke x" by auto
      have app: "takeWhile (\<lambda>x. \<not> is_llm_invoke x) (evs @ ev') =
                 takeWhile (\<lambda>x. \<not> is_llm_invoke x) evs" for ev'
        using x by (simp add: takeWhile_append1)
      show ?thesis
      proof (cases "check_quiz_creation state3")
        case Return_quiz
        with Cons rq Inr cq state3 tw show ?thesis
          by (simp split: sum.splits)
      next
        case Invoke_researcher
        obtain r' ev' where rec: "run_graph state3 cs' = (r', ev')"
          by (cases "run_graph state3 cs'") auto
        with Cons rq Inr cq state3 Invoke_researcher tw app [of ev'] show ?thesis
          by simp
      qed
    qed
  qed
qed

lemma route_insufficient:
  "additional_info r \<noteq> Some ''false'' \<Longrightarrow>
   check_quiz_creation (create_quiz_update state r) = Invoke_researcher"
  by (simp add: check_quiz_creation_def create_quiz_update_def)

lemma request_after_insufficient:
  "additional_info r \<noteq> Some ''false'' \<Longrightarrow>
   arg_messages (snd (invoke_researcher_request (create_quiz_update state r))) =
     st_messages state @ [HumanMessage (format_str (additional_info r))]"
  by (simp add: invoke_researcher_request_def create_quiz_update_def Let_def)

lemma run_graph_Nil:
  "run_graph state [] =
     (Suspended (snd (invoke_researcher_request state)),
      [Interrupt (snd (invoke_researcher_request state))])"
  by (simp split: prod.splits)

lemma run_graph_insufficient:
  "\<forall>c\<in>set cs. insufficient_cycle (st_quiz_topic state) c \<Longrightarrow>
   \<exists>req. fst (run_graph state cs) = Suspended req \<and>
         (cs \<noteq> [] \<longrightarrow> last (arg_messages req) = HumanMessage (format_str (gap_of (last cs)))) \<and>
         length (filter is_interrupt (snd (run_graph state cs))) = length cs + 1 \<and>
         length (filter is_llm_invoke (snd (run_graph state cs))) = length cs"
proof (induction cs arbitrary: state)
  case Nil
  show ?case unfolding run_graph_Nil by simp
next
  case (Cons c cs)
  from Cons.prems have ic: "insufficient_cycle (st_quiz_topic state) c" by simp
  then have ar: "agent_response c \<noteq> []" by (simp add: insufficient_cycle_def)
  from ic obtain ds ev where
    rc: "retrieve_context (retriever c) (st_quiz_topic state) = (Inr ds, ev)"
    by (cases "retrieve_context (retriever c) (st_quiz_topic state)")
       (auto simp: insufficient_cycle_def split: sum.splits)
  from ic obtain r where pr: "output_parser_parse (llm_result c) = Inr r"
    and gap: "additional_info r \<noteq> Some ''false''"
    by (auto simp: insufficient_cycle_def split: sum.splits)
  have g: "gap_of c = additional_info r" by (simp add: gap_of_def pr)
  from run_graph_parsed [OF ar rc pr, of cs] route_insufficient [OF gap]
  obtain state2 evs where
    topic: "st_quiz_topic state2 = st_quiz_topic state"
    and noint: "filter is_interrupt evs = []"
    and onellm: "length (filter is_llm_invoke evs) = 1"
    and run: "run_graph state (c # cs) =
               (case run_graph (create_quiz_update state2 r) cs of
                  (res, ev') \<Rightarrow>
                    (res, Interrupt (snd (invoke_researcher_request state)) # evs @ ev'))"
    by auto
  let ?s3 = "create_quiz_update state2 r"
  have t3: "st_quiz_topic ?s3 = st_quiz_topic state"
    using topic by (simp add: create_quiz_update_def)
  have "\<forall>c\<in>set cs. insufficient_cycle (st_quiz_topic ?s3) c"
    using Cons.prems t3 by simp
  from Cons.IH [OF this] obtain req where
    susp: "fst (run_graph ?s3 cs) = Suspended req"
    and lastm: "cs \<noteq> [] \<longrightarrow> last (arg_messages req) = HumanMessage (format_str (gap_of (last cs)))"
    and ni: "length (filter is_interrupt (snd (run_graph ?s3 cs))) = length cs + 1"
    and nl: "length (filter is_llm_invoke (snd (run_graph ?s3 cs))) = length cs"
    by blast
  obtain res ev' where rec: "run_graph ?s3 cs = (res, ev')"
    by (cases "run_graph ?s3 cs") auto
  have full: "run_graph state (c # cs) =
                (res, Interrupt (snd (invoke_researcher_request state)) # evs @ ev')"
    unfolding run rec by simp
  have f1: "fst (run_graph state (c # cs)) = Suspended req"
    using full rec susp by simp
  have f2: "last (arg_messages req) = HumanMessage (format_str (gap_of (last (c # cs))))"
  proof (cases "cs = []")
    case True
    have "fst (run_graph ?s3 []) = Suspended (snd (invoke_researcher_request ?s3))"
      unfolding run_graph_Nil by simp
    with susp True have "req = snd (invoke_researcher_request ?s3)"
      by (simp del: run_graph.simps)
    with request_after_insufficient [OF gap, of state2] g True show ?thesis by simp
  next
    case False
    with lastm show ?thesis by simp
  qed
  have f3: "length (filter is_interrupt (snd (run_graph state (c # cs)))) = length (c # cs) + 1"
    using full rec ni noint by simp
  have f4: "length (filter is_llm_invoke (snd (run_graph state (c # cs)))) = length (c # cs)"
    using full rec nl onellm by simp
  from f1 f2 f3 f4 show ?case by blast
qed

text \<open>
  Claim C7. Every run starts from a state whose \<open>additional_info\<close> is \<open>"false"\<close>, and
  its first external call is the request to the researcher, with the message
  \<open>Fetch data about <general_category>\<close>; this is the only such request before the
  first model call. When the first generation result is sufficient (its
  \<open>additional_info\<close> is \<open>"false"\<close> and it has a quiz), the run makes no other request
  to the researcher and its output is the quiz of that result.
\<close>

theorem bootstrap_research_exactly_once:
  "st_additional_info (prepare_input input) = Some ''false'' \<and>
   (\<exists>p rest. snd (graph input cs) = Interrupt p # rest \<and>
       name p = ''researcher-and-uploader-agent'' \<and>
       arg_messages p = [HumanMessage (''Fetch data about '' @ general_category input)]) \<and>
   length (filter is_interrupt
     (takeWhile (\<lambda>x. \<not> is_llm_invoke x) (snd (graph input cs)))) = 1 \<and>
   (\<forall>c cs' ds ev r q.
      cs = c # cs' \<and> agent_response c \<noteq> [] \<and>
      retrieve_context (retriever c) (quiz_topic input) = (Inr ds, ev) \<and>
      output_parser_parse (llm_result c) = Inr r \<and>
      additional_info r = Some ''false'' \<and> quiz r = Some q
      \<longrightarrow> fst (graph input cs) = Output \<lparr>out_quiz = q\<rparr> \<and>
          length (filter is_interrupt (snd (graph input cs))) = 1)"
proof -
  let ?s = "(prepare_input input)\<lparr>st_bucket_folder := bucket_folder input\<rparr>"
  have init: "st_additional_info (prepare_input input) = Some ''false''"
    by (simp add: prepare_input_def)
  from run_graph_first_events [of ?s cs] obtain rest where
    ev: "snd (graph input cs) = Interrupt (snd (invoke_researcher_request ?s)) # rest"
    and first: "filter is_interrupt (takeWhile (\<lambda>x. \<not> is_llm_invoke x) rest) = []"
    unfolding graph_def by blast
  have nm: "name (snd (invoke_researcher_request ?s)) = ''researcher-and-uploader-agent''"
    by (simp add: invoke_researcher_request_def Let_def)
  have am: "arg_messages (snd (invoke_researcher_request ?s)) =
              [HumanMessage (''Fetch data about '' @ general_category input)]"
    by (simp add: invoke_researcher_request_def Let_def prepare_input_def)
  have boot: "\<exists>p rest. snd (graph input cs) = Interrupt p # rest \<and>
       name p = ''researcher-and-uploader-agent'' \<and>
       arg_messages p = [HumanMessage (''Fetch data about '' @ general_category input)]"
    using ev nm am by blast
  have once: "length (filter is_interrupt
     (takeWhile (\<lambda>x. \<not> is_llm_invoke x) (snd (graph input cs)))) = 1"
    unfolding ev using first by simp
  have suff: "fst (graph input cs) = Output \<lparr>out_quiz = q\<rparr> \<and>
          length (filter is_interrupt (snd (graph input cs))) = 1"
    if cs: "cs = c # cs'" and ar: "agent_response c \<noteq> []"
      and rc: "retrieve_context (retriever c) (quiz_topic input) = (Inr ds, ev)"
      and pr: "output_parser_parse (llm_result c) = Inr r"
      and ai: "additional_info r = Some ''false''" and qz: "quiz r = Some q"
    for c cs' ds ev r q
  proof -
    have rc': "retrieve_context (retriever c) (st_quiz_topic ?s) = (Inr ds, ev)"
      using rc by (simp add: prepare_input_def)
    have route: "\<And>s. check_quiz_creation (create_quiz_update s r) = Return_quiz"
      using ai by (simp add: check_quiz_creation_def create_quiz_update_def)
    have ret: "\<And>s. return_quiz (create_quiz_update s r) = Inr \<lparr>out_quiz = q\<rparr>"
      using ai qz by (simp add: return_quiz_def create_quiz_update_def)
    from run_graph_parsed [OF ar rc' pr, of cs'] route ret
    obtain evs where noint: "filter is_interrupt evs = []"
      and run: "run_graph ?s (c # cs') =
                  (Output \<lparr>out_quiz = q\<rparr>, Interrupt (snd (invoke_researcher_request ?s)) # evs)"
      by auto
    show ?thesis unfolding graph_def cs run using noint by simp
  qed
  from init boot once suff show ?thesis by blast
qed

theorem bootstrap_research_exactly_once_witness:
  "graph
     \<lparr>general_category = ''space'', quiz_topic = ''black holes'', bucket_name = ''b'',
      index_name = ''i'', bucket_folder = None\<rparr>
     [\<lparr>agent_response = [AIMessage ''Relevant information uploaded to bucket.''],
       retriever = (\<lambda>k. Documents [''doc'']),
       llm_result = Json_fields
         (Some \<lparr>quiz_items = [\<lparr>question = ''q1'', difficulty = 0, answer = ''a1''\<rparr>,
                               \<lparr>question = ''q2'', difficulty = 1/2, answer = ''a2''\<rparr>,
                               \<lparr>question = ''q3'', difficulty = 1, answer = ''a3''\<rparr>]\<rparr>)
         (Some ''false'')\<rparr>]
   = (Output \<lparr>out_quiz =
        \<lparr>quiz_items = [\<lparr>question = ''q1'', difficulty = 0, answer = ''a1''\<rparr>,
                       \<lparr>question = ''q2'', difficulty = 1/2, answer = ''a2''\<rparr>,
                       \<lparr>question = ''q3'', difficulty = 1, answer = ''a3''\<rparr>]\<rparr>\<rparr>,
      [Interrupt \<lparr>name = ''researcher-and-uploader-agent'',
                  arg_messages = [HumanMessage ''Fetch data about space''],
                  arg_bucket_name = ''b'', arg_bucket_folder = None\<rparr>,
       Get_or_create_index ''i'' ''b'', Ingest_data, Retriever_invoke ''black holes'',
       Llm_invoke ''black holes'' [''doc'']])"
proof -
  let ?i = "\<lparr>general_category = ''space'', quiz_topic = ''black holes'', bucket_name = ''b'',
      index_name = ''i'', bucket_folder = None\<rparr>"
  let ?q = "\<lparr>quiz_items = [\<lparr>question = ''q1'', difficulty = 0, answer = ''a1''\<rparr>,
                       \<lparr>question = ''q2'', difficulty = 1/2, answer = ''a2''\<rparr>,
                       \<lparr>question = ''q3'', difficulty = 1, answer = ''a3''\<rparr>]\<rparr>"
  let ?r = "\<lparr>quiz = Some ?q, additional_info = Some ''false''\<rparr>"
  let ?c = "\<lparr>agent_response = [AIMessage ''Relevant information uploaded to bucket.''],
       retriever = (\<lambda>k. Documents [''doc'']),
       llm_result = Json_fields (Some ?q) (Some ''false'')\<rparr>"
  have ctx: "retrieve_context (\<lambda>k. Documents [''doc'']) ''black holes'' =
               (Inr [''doc''], [Retriever_invoke ''black holes''])"
    by (simp add: retrieve_context_def eval_nat_numeral)
  have h1: "agent_response ?c \<noteq> []" by simp
  have h2: "retrieve_context (retriever ?c) (quiz_topic ?i) =
              (Inr [''doc''], [Retriever_invoke ''black holes''])"
    using ctx by simp
  have h3: "output_parser_parse (llm_result ?c) = Inr ?r"
    by (simp add: output_parser_parse_def QuizOrInsufficientInfo_init_def check_quiz_def
        dict_get_def Quiz_ok_def QuizItem_ok_def)
  have h4: "additional_info ?r = Some ''false''" by simp
  have h5: "quiz ?r = Some ?q" by simp
  note a = bootstrap_research_exactly_once [of ?i "[?c]"]
  note suff = conjunct2 [OF conjunct2 [OF conjunct2 [OF a]]]
  have out: "fst (graph ?i [?c]) = Output \<lparr>out_quiz = ?q\<rparr>"
    using suff [rule_format, OF conjI [OF refl conjI [OF h1 conjI [OF h2 conjI [OF h3 conjI [OF h4 h5]]]]]]
    by (rule conjunct1)
  have evs: "snd (graph ?i [?c]) =
      [Interrupt \<lparr>name = ''researcher-and-uploader-agent'',
                  arg_messages = [HumanMessage ''Fetch data about space''],
                  arg_bucket_name = ''b'', arg_bucket_folder = None\<rparr>,
       Get_or_create_index ''i'' ''b'', Ingest_data, Retriever_invoke ''black holes'',
       Llm_invoke ''black holes'' [''doc'']]"
    by (simp add: graph_def prepare_input_def invoke_researcher_request_def
        invoke_researcher_resume_def Let_def create_quiz_def ctx h3 [simplified]
        after_create_quiz_def check_quiz_creation_def create_quiz_update_def return_quiz_def)
  show ?thesis using out evs by (simp add: prod_eq_iff del: run_graph.simps)
qed

text \<open>
  Claim C9. The loop between research and generation has no cap. Whatever the number
  of cycles whose generation result asks for more information, the run goes through
  all of them and then waits for the researcher once more: it has not ended, has
  raised nothing, has made one request to the researcher and one model call per
  cycle, and its pending request carries the last gap as every request before did.
  Such sequences of cycles exist for every length \<open>n\<close>.
\<close>

theorem sufficiency_loop_has_no_cap:
  "((\<forall>c\<in>set cs. insufficient_cycle (st_quiz_topic state) c) \<longrightarrow>
      (\<exists>req. fst (run_graph state cs) = Suspended req \<and>
         (cs \<noteq> [] \<longrightarrow>
            last (arg_messages req) = HumanMessage (format_str (gap_of (last cs))))) \<and>
      length (filter is_interrupt (snd (run_graph state cs))) = length cs + 1 \<and>
      length (filter is_llm_invoke (snd (run_graph state cs))) = length cs) \<and>
   (\<exists>cs'. length cs' = n \<and> (\<forall>c\<in>set cs'. insufficient_cycle (st_quiz_topic state) c))"
proof -
  let ?c = "\<lparr>agent_response = [AIMessage ''Relevant information uploaded to bucket.''],
       retriever = (\<lambda>k. Documents [''doc'']),
       llm_result = Json_fields None (Some ''more'')\<rparr>"
  have "retrieve_context (\<lambda>k. Documents [''doc'']) topic =
               (Inr [''doc''], [Retriever_invoke topic])" for topic
    by (simp add: retrieve_context_def eval_nat_numeral)
  then have "insufficient_cycle (st_quiz_topic state) ?c"
    by (simp add: insufficient_cycle_def output_parser_parse_def
        QuizOrInsufficientInfo_init_def check_quiz_def dict_get_def)
  then have "length (replicate n ?c) = n \<and>
             (\<forall>c\<in>set (replicate n ?c). insufficient_cycle (st_quiz_topic state) c)"
    by simp
  then have ex: "\<exists>cs'. length cs' = n \<and>
                   (\<forall>c\<in>set cs'. insufficient_cycle (st_quiz_topic state) c)"
    by blast
  have "(\<exists>req. fst (run_graph state cs) = Suspended req \<and>
         (cs \<noteq> [] \<longrightarrow>
            last (arg_messages req) = HumanMessage (format_str (gap_of (last cs))))) \<and>
      length (filter is_interrupt (snd (run_graph state cs))) = length cs + 1 \<and>
      length (filter is_llm_invoke (snd (run_graph state cs))) = length cs"
    if "\<forall>c\<in>set cs. insufficient_cycle (st_quiz_topic state) c"
    using run_graph_insufficient [OF that] by blast
  with ex show ?thesis by blast
qed

theorem sufficiency_loop_has_no_cap_witness:
  "(\<exists>req. fst (run_graph
        \<lparr>st_messages = [], st_general_category = ''space'', st_quiz_topic = ''black holes'',
         st_bucket_name = ''b'', st_bucket_folder = None, st_index_name = ''i'',
         st_additional_info = Some ''false'', st_quiz = Absent\<rparr>
        [\<lparr>agent_response = [AIMessage ''Relevant information uploaded to bucket.''],
          retriever = (\<lambda>k. Documents [''doc'']),
          llm_result = Json_fields None (Some ''accretion disks'')\<rparr>,
         \<lparr>agent_response = [AIMessage ''Relevant information uploaded to bucket.''],
          retriever = (\<lambda>k. if k < 2 then IngestionInProgressException ''busy''
                             else Documents [''doc'', ''doc2'']),
          llm_result = Json_fields None None\<rparr>,
         \<lparr>agent_response = [AIMessage ''Relevant information uploaded to bucket.''],
          retriever = (\<lambda>k. Documents [''doc'']),
          llm_result = Json_fields None (Some ''event horizon'')\<rparr>]) = Suspended req \<and>
      last (arg_messages req) = HumanMessage ''event horizon'') \<and>
   length (filter is_interrupt (snd (run_graph
        \<lparr>st_messages = [], st_general_category = ''space'', st_quiz_topic = ''black holes'',
         st_bucket_name = ''b'', st_bucket_folder = None, st_index_name = ''i'',
         st_additional_info = Some ''false'', st_quiz = Absent\<rparr>
        [\<lparr>agent_response = [AIMessage ''Relevant information uploaded to bucket.''],
          retriever = (\<lambda>k. Documents [''doc'']),
          llm_result = Json_fields None (Some ''accretion disks'')\<rparr>,
         \<lparr>agent_response = [AIMessage ''Relevant information uploaded to bucket.''],
          retriever = (\<lambda>k. if k < 2 then IngestionInProgressException ''busy''
                             else Documents [''doc'', ''doc2'']),
          llm_result = Json_fields None None\<rparr>,
         \<lparr>agent_response = [AIMessage ''Relevant information uploaded to bucket.''],
          retriever = (\<lambda>k. Documents [''doc'']),
          llm_result = Json_fields None (Some ''event horizon'')\<rparr>]))) = 4"
proof -
  let ?s = "\<lparr>st_messages = [], st_general_category = ''space'', st_quiz_topic = ''black holes'',
         st_bucket_name = ''b'', st_bucket_folder = None, st_index_name = ''i'',
         st_additional_info = Some ''false'', st_quiz = Absent\<rparr>"
  let ?c1 = "\<lparr>agent_response = [AIMessage ''Relevant information uploaded to bucket.''],
          retriever = (\<lambda>k. Documents [''doc'']),
          llm_result = Json_fields None (Some ''accretion disks'')\<rparr>"
  let ?c2 = "\<lparr>agent_response = [AIMessage ''Relevant information uploaded to bucket.''],
          retriever = (\<lambda>k. if k < 2 then IngestionInProgressException ''busy''
                             else Documents [''doc'', ''doc2'']),
          llm_result = Json_fields None None\<rparr>"
  let ?c3 = "\<lparr>agent_response = [AIMessage ''Relevant information uploaded to bucket.''],
          retriever = (\<lambda>k. Documents [''doc'']),
          llm_result = Json_fields None (Some ''event horizon'')\<rparr>"
  have p: "output_parser_parse (Json_fields None a) = Inr \<lparr>quiz = None, additional_info = a\<rparr>"
    for a
    by (simp add: output_parser_parse_def QuizOrInsufficientInfo_init_def check_quiz_def
        dict_get_def)
  have r1: "fst (retrieve_context (\<lambda>k. Documents [''doc'']) ''black holes'') = Inr [''doc'']"
    by (simp add: retrieve_context_def eval_nat_numeral)
  have r2: "fst (retrieve_context
              (\<lambda>k. if k < 2 then IngestionInProgressException ''busy''
                    else Documents [''doc'', ''doc2'']) ''black holes'') = Inr [''doc'', ''doc2'']"
    by (simp add: retrieve_context_def eval_nat_numeral)
  have h: "\<forall>c\<in>set [?c1, ?c2, ?c3]. insufficient_cycle (st_quiz_topic ?s) c"
    by (simp add: insufficient_cycle_def p r1 r2)
  have g: "format_str (gap_of (last [?c1, ?c2, ?c3])) = ''event horizon''"
    by (simp add: gap_of_def p format_str_def)
  note a = mp [OF conjunct1 [OF sufficiency_loop_has_no_cap [of "[?c1, ?c2, ?c3]" ?s]] h]
  from conjunct1 [OF a] obtain req where
    "fst (run_graph ?s [?c1, ?c2, ?c3]) = Suspended req"
    and "[?c1, ?c2, ?c3] \<noteq> [] \<longrightarrow>
           last (arg_messages req) = HumanMessage (format_str (gap_of (last [?c1, ?c2, ?c3])))"
    by blast
  then have e: "\<exists>req. fst (run_graph ?s [?c1, ?c2, ?c3]) = Suspended req \<and>
      last (arg_messages req) = HumanMessage ''event horizon''"
    unfolding g by blast
  have n: "length (filter is_interrupt (snd (run_graph ?s [?c1, ?c2, ?c3]))) = 4"
    using conjunct1 [OF conjunct2 [OF a]] by (simp del: run_graph.simps)
  from e n show ?thesis by (rule conjI)
qed

subsection \<open>What the validator lets through\<close>

text \<open>The part of the invariant that holds: a stored quiz comes with \<open>"false"\<close>.\<close>

lemma stored_quiz_has_false:
  "st_quiz (create_quiz_update state r) = Present (Some q) \<Longrightarrow>
   st_additional_info (create_quiz_update state r) = Some ''false''"
  by (auto simp: create_quiz_update_def split: if_splits)

text \<open>Had \<open>check_quiz\<close> been given the value of \<open>additional_info\<close>, it would have
  rejected a missing quiz next to \<open>"false"\<close>.\<close>

lemma check_quiz_with_additional_info:
  "check_quiz None [''additional_info'' \<mapsto> VStr ''false''] = Inl (ValueError check_quiz_message)"
  by (simp add: check_quiz_def dict_get_def)

text \<open>
  Claim C6. The claim says that a validated \<open>QuizOrInsufficientInfo\<close> never has a quiz
  next to an \<open>additional_info\<close> other than \<open>"false"\<close>, which is what the message of
  \<open>check_quiz\<close> says too. The validator has no such case: a quiz together with a gap
  text passes, whether \<open>check_quiz\<close> sees \<open>additional_info\<close> or not, and so does a
  result with neither.
\<close>

theorem quiz_with_gap_passes_validation:
  "QuizOrInsufficientInfo_init
     (Some \<lparr>quiz_items = [\<lparr>question = ''q1'', difficulty = 1/2, answer = ''a1''\<rparr>]\<rparr>)
     (Some ''mass of Sagittarius A*'')
   = Inr \<lparr>quiz = Some \<lparr>quiz_items = [\<lparr>question = ''q1'', difficulty = 1/2, answer = ''a1''\<rparr>]\<rparr>,
          additional_info = Some ''mass of Sagittarius A*''\<rparr> \<and>
   check_quiz
     (Some \<lparr>quiz_items = [\<lparr>question = ''q1'', difficulty = 1/2, answer = ''a1''\<rparr>]\<rparr>)
     [''additional_info'' \<mapsto> VStr ''mass of Sagittarius A*'']
   = Inr (Some \<lparr>quiz_items = [\<lparr>question = ''q1'', difficulty = 1/2, answer = ''a1''\<rparr>]\<rparr>) \<and>
   QuizOrInsufficientInfo_init None None = Inr \<lparr>quiz = None, additional_info = None\<rparr>"
  by (simp add: QuizOrInsufficientInfo_init_def check_quiz_def dict_get_def Quiz_ok_def
      QuizItem_ok_def)

text \<open>
  Claim C10. The claim says that after a parsed generation step the state has a quiz
  exactly when \<open>additional_info\<close> is \<open>"false"\<close>, because validation rejects \<open>"false"\<close>
  without a quiz, so that \<open>return_quiz\<close> always has a quiz to return. \<open>check_quiz\<close>
  validates \<open>quiz\<close>, the first field, and finds no \<open>additional_info\<close> in \<open>values\<close>: the
  response \<open>{"quiz": null, "additional_info": "false"}\<close> parses, the state then has
  \<open>"false"\<close> and no quiz, the run is routed to \<open>return_quiz\<close>, and \<open>GraphOutput\<close>
  cannot be built.
\<close>

theorem false_without_quiz_reaches_return_quiz:
  "output_parser_parse (Json_fields None (Some ''false'')) =
     Inr \<lparr>quiz = None, additional_info = Some ''false''\<rparr> \<and>
   st_quiz (create_quiz_update state \<lparr>quiz = None, additional_info = Some ''false''\<rparr>)
     = Present None \<and>
   st_additional_info (create_quiz_update state \<lparr>quiz = None, additional_info = Some ''false''\<rparr>)
     = Some ''false'' \<and>
   check_quiz_creation (create_quiz_update state \<lparr>quiz = None, additional_info = Some ''false''\<rparr>)
     = Return_quiz \<and>
   return_quiz (create_quiz_update state \<lparr>quiz = None, additional_info = Some ''false''\<rparr>)
     = Inl ValidationError \<and>
   fst (graph
     \<lparr>general_category = ''space'', quiz_topic = ''black holes'', bucket_name = ''b'',
      index_name = ''i'', bucket_folder = None\<rparr>
     [\<lparr>agent_response = [AIMessage ''Relevant information uploaded to bucket.''],
       retriever = (\<lambda>k. Documents [''doc'']),
       llm_result = Json_fields None (Some ''false'')\<rparr>]) = Raised ValidationError"
proof -
  have p: "output_parser_parse (Json_fields None (Some ''false'')) =
     Inr \<lparr>quiz = None, additional_info = Some ''false''\<rparr>"
    by (simp add: output_parser_parse_def QuizOrInsufficientInfo_init_def check_quiz_def
        dict_get_def)
  have ctx: "retrieve_context (\<lambda>k. Documents [''doc'']) ''black holes'' =
               (Inr [''doc''], [Retriever_invoke ''black holes''])"
    by (simp add: retrieve_context_def eval_nat_numeral)
  have s: "st_quiz (create_quiz_update state \<lparr>quiz = None, additional_info = Some ''false''\<rparr>)
     = Present None \<and>
   st_additional_info (create_quiz_update state \<lparr>quiz = None, additional_info = Some ''false''\<rparr>)
     = Some ''false'' \<and>
   check_quiz_creation (create_quiz_update state \<lparr>quiz = None, additional_info = Some ''false''\<rparr>)
     = Return_quiz \<and>
   return_quiz (create_quiz_update state \<lparr>quiz = None, additional_info = Some ''false''\<rparr>)
     = Inl ValidationError"
    by (simp add: create_quiz_update_def check_quiz_creation_def return_quiz_def)
  have g: "fst (graph
     \<lparr>general_category = ''space'', quiz_topic = ''black holes'', bucket_name = ''b'',
      index_name = ''i'', bucket_folder = None\<rparr>
     [\<lparr>agent_response = [AIMessage ''Relevant information uploaded to bucket.''],
       retriever = (\<lambda>k. Documents [''doc'']),
       llm_result = Json_fields None (Some ''false'')\<rparr>]) = Raised ValidationError"
    by (simp add: graph_def prepare_input_def invoke_researcher_request_def
        invoke_researcher_resume_def Let_def create_quiz_def ctx p after_create_quiz_def
        check_quiz_creation_def create_quiz_update_def return_quiz_def)
  from p s g show ?thesis by blast
qed

section \<open>Properties of the researcher\<close>

text \<open>
  Claim C8, as stated: for every findings text \<open>F\<close> and time \<open>T\<close> the returned
  conversation has exactly one acknowledgment and does not have the text \<open>F\<close>. The
  conversation the graph returns starts with the one it was given. The second request
  of a quiz run passes a conversation that already holds the acknowledgment of the
  first: the returned conversation then has two. And when the findings are the
  acknowledgment text itself, the returned conversation has that text.
\<close>

theorem returned_conversation_repeats_acknowledgment:
  "researcher_graph
     \<lparr>in_messages = [HumanMessage ''Fetch data about space'',
                     HumanMessage ''Fetch data about space'',
                     AIMessage ''Relevant information uploaded to bucket.'',
                     HumanMessage ''create a quiz about black holes'',
                     HumanMessage ''event horizon''],
      in_bucket_name = ''b'', in_bucket_folder = None\<rparr>
     [AIMessage ''raw findings about the event horizon'']
     1700000000
   = Inr (\<lparr>up_bucket_name = ''b'',
           blob_file_path = ''1700000000.txt'',
           content_type = ''application/txt'',
           up_content = ''raw findings about the event horizon''\<rparr>,
          [HumanMessage ''Fetch data about space'',
           HumanMessage ''Fetch data about space'',
           AIMessage ''Relevant information uploaded to bucket.'',
           HumanMessage ''create a quiz about black holes'',
           HumanMessage ''event horizon'',
           AIMessage ''Relevant information uploaded to bucket.'']) \<and>
   acknowledgments
     [HumanMessage ''Fetch data about space'',
      HumanMessage ''Fetch data about space'',
      AIMessage ''Relevant information uploaded to bucket.'',
      HumanMessage ''create a quiz about black holes'',
      HumanMessage ''event horizon'',
      AIMessage ''Relevant information uploaded to bucket.''] = 2 \<and>
   researcher_graph
     \<lparr>in_messages = [HumanMessage ''Fetch data about space''],
      in_bucket_name = ''b'', in_bucket_folder = None\<rparr>
     [AIMessage ''Relevant information uploaded to bucket.'']
     1700000000
   = Inr (\<lparr>up_bucket_name = ''b'',
           blob_file_path = ''1700000000.txt'',
           content_type = ''application/txt'',
           up_content = ''Relevant information uploaded to bucket.''\<rparr>,
          [HumanMessage ''Fetch data about space'',
           AIMessage ''Relevant information uploaded to bucket.''])"
proof -
  have t: "str_int 1700000000 @ ''.txt'' = ''1700000000.txt''"
    by (simp add: str_int_def str_nat.simps digit_char_def)
  show ?thesis
    by (simp add: researcher_graph_def research_node_def researcher_prepare_input_def
        upload_to_bucket_def t acknowledgments_def)
qed

text \<open>
  Claim C8, amended. For every findings text \<open>F\<close> and every time \<open>T\<close>,
  \<open>upload_to_bucket\<close> calls the storage with the path \<open>"{T}.txt"\<close>, the content type
  \<open>application/txt\<close> and the content \<open>F\<close>, and returns one message, the
  acknowledgment, whatever \<open>F\<close> is. The conversation the researcher workflow
  returns is the conversation it was given followed by that message: it has one
  acknowledgment more than the given conversation, and its texts are those of the
  given conversation and the acknowledgment text.
\<close>

theorem upload_receives_findings:
  "upload_to_bucket (state\<lparr>web_results := F\<rparr>) T =
     (\<lparr>up_bucket_name = r_bucket_name state,
       blob_file_path = str_int T @ ''.txt'',
       content_type = ''application/txt'',
       up_content = F\<rparr>,
      [AIMessage ''Relevant information uploaded to bucket.'']) \<and>
   researcher_graph input result T =
     (if result = [] then Inl IndexError
      else Inr (\<lparr>up_bucket_name = in_bucket_name input,
                 blob_file_path = str_int T @ ''.txt'',
                 content_type = ''application/txt'',
                 up_content = content (last result)\<rparr>,
                in_messages input @ [AIMessage ''Relevant information uploaded to bucket.''])) \<and>
   acknowledgments (in_messages input @ [AIMessage ''Relevant information uploaded to bucket.''])
     = acknowledgments (in_messages input) + 1 \<and>
   set (map content (in_messages input @ [AIMessage ''Relevant information uploaded to bucket.'']))
     = insert ''Relevant information uploaded to bucket.'' (set (map content (in_messages input)))"
proof -
  have up: "upload_to_bucket (state\<lparr>web_results := F\<rparr>) T =
     (\<lparr>up_bucket_name = r_bucket_name state,
       blob_file_path = str_int T @ ''.txt'',
       content_type = ''application/txt'',
       up_content = F\<rparr>,
      [AIMessage ''Relevant information uploaded to bucket.''])"
    by (simp add: upload_to_bucket_def)
  have run: "researcher_graph input result T =
     (if result = [] then Inl IndexError
      else Inr (\<lparr>up_bucket_name = in_bucket_name input,
                 blob_file_path = str_int T @ ''.txt'',
                 content_type = ''application/txt'',
                 up_content = content (last result)\<rparr>,
                in_messages input @ [AIMessage ''Relevant information uploaded to bucket.'']))"
    by (simp add: researcher_graph_def research_node_def researcher_prepare_input_def
        upload_to_bucket_def)
  have ack: "acknowledgments
               (in_messages input @ [AIMessage ''Relevant information uploaded to bucket.''])
             = acknowledgments (in_messages input) + 1"
    by (simp add: acknowledgments_def)
  have texts: "set (map content
               (in_messages input @ [AIMessage ''Relevant information uploaded to bucket.'']))
             = insert ''Relevant information uploaded to bucket.''
                 (set (map content (in_messages input)))"
    by simp
  from up run ack texts show ?thesis by (intro conjI)
qed

theorem upload_receives_findings_witness:
  "researcher_graph
     \<lparr>in_messages = [HumanMessage ''Fetch data about space''],
      in_bucket_name = ''b'', in_bucket_folder = None\<rparr>
     [HumanMessage ''Fetch data about space'', AIMessage ''raw findings about space'']
     1700000000
   = Inr (\<lparr>up_bucket_name = ''b'',
           blob_file_path = ''1700000000.txt'',
           content_type = ''application/txt'',
           up_content = ''raw findings about space''\<rparr>,
          [HumanMessage ''Fetch data about space'',
           AIMessage ''Relevant information uploaded to bucket.''])"
proof -
  let ?i = "\<lparr>in_messages = [HumanMessage ''Fetch data about space''],
      in_bucket_name = ''b'', in_bucket_folder = None\<rparr>"
  let ?res = "[HumanMessage ''Fetch data about space'', AIMessage ''raw findings about space'']"
  have t: "str_int 1700000000 @ ''.txt'' = ''1700000000.txt''"
    by (simp add: str_int_def str_nat.simps digit_char_def)
  note a = upload_receives_findings
    [where T = 1700000000 and result = ?res and input = ?i]
  note b = conjunct1 [OF conjunct2 [OF a]]
  show ?thesis using b unfolding t by simp
qed

end
